theory Spec2Isabelle
  imports Main
begin

section \<open>The product catalogue server (server.js)\<close>

text \<open>
  The server binds seven routes to handlers over one Mongoose model, \<open>Product\<close>.
  Each product handler is modelled as a function from the collection and the request,
  as the handler sees it once the upload middleware has run, to the new collection and
  the response; the upload route is modelled with its middleware. The
  \<open>try { ... } catch\<close> of a handler is a body that returns \<open>error + result\<close> and
  a wrapper that turns \<open>Inl\<close> into the handler's 500 response. The list route
  (lines 83 to 90) returns the whole collection and is not modelled.
\<close>

subsection \<open>Errors a handler can catch\<close>

datatype error =
    CastError string
  | ValidationError string
  | TypeError
  | DuplicateKey
  | DocumentNotFoundError
  | MongooseError
  | MulterError string
  | StorageError

subsection \<open>The schema (lines 30 to 41)\<close>

text \<open>
  \<open>productSchema\<close> declares seven paths. A path of a document that holds no value
  (missing, or null) is \<open>None\<close>; \<open>images\<close> is an array path and always holds an
  array. The type \<open>'n\<close> stands for the values of a JavaScript Number. The
  identifier \<open>_id\<close> is not a path of the schema: a document is the pair of its
  identifier and its paths.
\<close>

record 'n product =
  sku :: "string option"
  name :: "string option"
  quantity :: "'n option"
  description :: "string option"
  images :: "string list"
  featuredImage :: "string option"
  isFavorite :: "bool option"

text \<open>
  An ObjectId is kept as the string \<open>toString\<close> gives for it.
\<close>

type_synonym objectId = string

type_synonym 'n document = "objectId \<times> 'n product"

subsection \<open>Requests and responses\<close>

text \<open>
  A file as the upload middleware describes it to the handler; \<open>path\<close> is the
  stored reference.
\<close>

record multerFile =
  fieldname :: string
  originalname :: string
  filename :: string
  path :: string

text \<open>
  The text fields of the body are strings, \<open>None\<close> when the field is not sent.
  \<open>files\<close> is \<open>req.files\<close>: the array the middleware \<open>upload.array("images", 5)\<close>
  leaves, and \<open>None\<close> (undefined) when the request is not multipart and the
  middleware passes it on untouched.
\<close>

record reqBody =
  body_sku :: "string option"
  body_name :: "string option"
  body_quantity :: "string option"
  body_description :: "string option"
  body_featuredImage :: "string option"

record request =
  body :: reqBody
  files :: "multerFile list option"

datatype 'n payload =
    Empty
  | Message string
  | MessageError string error
  | MessageProduct string "'n document"
  | Document "'n document"
  | MessageFile string "multerFile option"
  | RawError error
  | ErrorPage error

type_synonym 'n response = "nat \<times> 'n payload"

subsection \<open>The collection and the Mongoose calls the handlers make\<close>

text \<open>
  \<open>connected\<close> is false when the connection of lines 22 to 28 failed (the failure is
  logged and the server keeps serving); every call that reaches the collection then
  fails. \<open>docs\<close> maps an identifier to the document stored under it.
\<close>

record 'n database =
  connected :: bool
  docs :: "objectId \<rightharpoonup> 'n product"

text \<open>
  Three behaviours of the library are parameters of the model. \<open>toNumber\<close> is
  JavaScript's \<open>Number(s)\<close> on a string, \<open>None\<close> for NaN. \<open>undefinedKeys\<close> is what
  an update does with a key whose value is undefined: Mongoose 5 sets the path to null,
  Mongoose 6 and later remove the key from the update. \<open>parseObjectId\<close> is the
  ObjectId a string stands for, \<open>None\<close> when it stands for none: every version
  reads 24 hexadecimal digits, versions 5 to 7 also read any string of 12 characters.
\<close>

datatype undefinedKeys = SetNull | Strip

record 'n mongoose =
  toNumber :: "string \<Rightarrow> 'n option"
  undefinedKeys :: undefinedKeys
  parseObjectId :: "string \<Rightarrow> objectId option"

text \<open>
  Casting a route parameter to the \<open>_id\<close> path: a string that stands for no
  ObjectId is a CastError.
\<close>

definition castObjectId :: "'n mongoose \<Rightarrow> string \<Rightarrow> error + objectId" where
  "castObjectId M s =
     (case parseObjectId M s of
        None \<Rightarrow> Inl (CastError ''_id'')
      | Some i \<Rightarrow> Inr i)"

datatype 'a js = Undefined | Null | Val 'a

definition ofOption :: "'a option \<Rightarrow> 'a js" where
  "ofOption v = (case v of None \<Rightarrow> Undefined | Some x \<Rightarrow> Val x)"

text \<open>
  Casting to the Number path: undefined stays undefined, the empty string is null, any
  other string is \<open>Number(s)\<close> and NaN is a CastError.
\<close>

definition castNumber :: "'n mongoose \<Rightarrow> string option \<Rightarrow> error + 'n js" where
  "castNumber M v =
     (case v of
        None \<Rightarrow> Inr Undefined
      | Some s \<Rightarrow>
          if s = [] then Inr Null
          else (case toNumber M s of
                  None \<Rightarrow> Inl (CastError ''quantity'')
                | Some n \<Rightarrow> Inr (Val n)))"

definition toPath :: "'a js \<Rightarrow> 'a option" where
  "toPath v = (case v of Val x \<Rightarrow> Some x | _ \<Rightarrow> None)"

text \<open>The plain object a handler builds for \<open>new Product\<close> and for the update.\<close>

record productData =
  data_sku :: "string option"
  data_name :: "string option"
  data_quantity :: "string option"
  data_description :: "string option"
  data_images :: "string list"
  data_featuredImage :: "string option"

definition findById ::
  "'n mongoose \<Rightarrow> 'n database \<Rightarrow> string \<Rightarrow> error + 'n document option" where
  "findById M db s =
     (case castObjectId M s of
        Inl e \<Rightarrow> Inl e
      | Inr i \<Rightarrow>
          if \<not> connected db then Inl MongooseError
          else Inr (map_option (\<lambda>p. (i, p)) (docs db i)))"

text \<open>
  \<open>new Product(data)\<close> followed by \<open>save()\<close>: the document gets the fresh
  identifier \<open>newId\<close>; a value that does not cast makes \<open>save\<close> reject with a
  ValidationError; the insert fails on an identifier already in the collection.
\<close>

definition saveNew ::
  "'n mongoose \<Rightarrow> objectId \<Rightarrow> 'n database \<Rightarrow> productData \<Rightarrow> error + ('n database \<times> 'n document)" where
  "saveNew M newId db d =
     (case castNumber M (data_quantity d) of
        Inl e \<Rightarrow> Inl (ValidationError ''quantity'')
      | Inr q \<Rightarrow>
          if \<not> connected db then Inl MongooseError
          else if docs db newId \<noteq> None then Inl DuplicateKey
          else
            let p = \<lparr>sku = data_sku d, name = data_name d, quantity = toPath q,
                     description = data_description d, images = data_images d,
                     featuredImage = data_featuredImage d, isFavorite = None\<rparr>
            in Inr (db\<lparr>docs := (docs db)(newId \<mapsto> p)\<rparr>, (newId, p)))"

text \<open>
  \<open>save()\<close> of a document that was read and whose only modified path is
  \<open>isFavorite\<close>: the update sets that path of the stored document.
\<close>

definition saveIsFavorite :: "'n database \<Rightarrow> objectId \<Rightarrow> bool \<Rightarrow> error + 'n database" where
  "saveIsFavorite db i v =
     (if \<not> connected db then Inl MongooseError
      else (case docs db i of
              None \<Rightarrow> Inl DocumentNotFoundError
            | Some q \<Rightarrow> Inr (db\<lparr>docs := (docs db)(i \<mapsto> q\<lparr>isFavorite := Some v\<rparr>)\<rparr>)))"

definition setPath :: "'n mongoose \<Rightarrow> 'a option \<Rightarrow> 'a js \<Rightarrow> 'a option" where
  "setPath M old v =
     (case v of
        Val x \<Rightarrow> Some x
      | Null \<Rightarrow> None
      | Undefined \<Rightarrow> (case undefinedKeys M of SetNull \<Rightarrow> None | Strip \<Rightarrow> old))"

text \<open>
  \<open>findByIdAndUpdate(id, data, {new: true})\<close>: casts the identifier and the update,
  then sets the keys of the update on the matching document and returns the document
  as updated, or null when no document matches.
\<close>

definition findByIdAndUpdate ::
  "'n mongoose \<Rightarrow> 'n database \<Rightarrow> string \<Rightarrow> productData \<Rightarrow> error + ('n database \<times> 'n document option)" where
  "findByIdAndUpdate M db s d =
     (case castObjectId M s of
        Inl e \<Rightarrow> Inl e
      | Inr i \<Rightarrow>
          (case castNumber M (data_quantity d) of
             Inl e \<Rightarrow> Inl e
           | Inr q \<Rightarrow>
               if \<not> connected db then Inl MongooseError
               else (case docs db i of
                       None \<Rightarrow> Inr (db, None)
                     | Some p \<Rightarrow>
                         let p' = p\<lparr>sku := setPath M (sku p) (ofOption (data_sku d)),
                                    name := setPath M (name p) (ofOption (data_name d)),
                                    quantity := setPath M (quantity p) q,
                                    description :=
                                      setPath M (description p) (ofOption (data_description d)),
                                    images := data_images d,
                                    featuredImage :=
                                      setPath M (featuredImage p) (ofOption (data_featuredImage d))\<rparr>
                         in Inr (db\<lparr>docs := (docs db)(i \<mapsto> p')\<rparr>, Some (i, p')))))"

definition findByIdAndDelete ::
  "'n mongoose \<Rightarrow> 'n database \<Rightarrow> string \<Rightarrow> error + 'n database" where
  "findByIdAndDelete M db s =
     (case castObjectId M s of
        Inl e \<Rightarrow> Inl e
      | Inr i \<Rightarrow>
          if \<not> connected db then Inl MongooseError
          else Inr (db\<lparr>docs := (docs db)(i := None)\<rparr>))"

subsection \<open>The expression for featuredImage (lines 72 and 111)\<close>

text \<open>
  \<open>req.files[0]?.path\<close>: a TypeError when \<open>req.files\<close> is undefined, undefined
  when the array is empty, else the path of the first file.
\<close>

definition firstFilePath :: "multerFile list option \<Rightarrow> error + string option" where
  "firstFilePath fso =
     (case fso of
        None \<Rightarrow> Inl TypeError
      | Some [] \<Rightarrow> Inr None
      | Some (f # _) \<Rightarrow> Inr (Some (path f)))"

text \<open>A string is truthy when it is not empty; undefined is falsy.\<close>

definition truthyString :: "string option \<Rightarrow> bool" where
  "truthyString v = (case v of None \<Rightarrow> False | Some s \<Rightarrow> s \<noteq> [])"

text \<open>
  \<open>req.body.featuredImage || req.files[0]?.path\<close>: the right operand is evaluated
  only when the left one is falsy.
\<close>

definition featuredImageOf :: "request \<Rightarrow> error + string option" where
  "featuredImageOf req =
     (if truthyString (body_featuredImage (body req))
      then Inr (body_featuredImage (body req))
      else firstFilePath (files req))"

subsection \<open>The storage of uploaded files (lines 43 to 49)\<close>






subsection \<open>POST /upload (lines 52 to 61)\<close>




subsection \<open>POST /api/products (lines 64 to 81)\<close>

definition createBody ::
  "'n mongoose \<Rightarrow> objectId \<Rightarrow> 'n database \<Rightarrow> request \<Rightarrow> error + ('n database \<times> 'n response)" where
  "createBody M newId db req =
     (case files req of
        None \<Rightarrow> Inl TypeError
      | Some fs \<Rightarrow>
          (case featuredImageOf req of
             Inl e \<Rightarrow> Inl e
           | Inr fi \<Rightarrow>
               (case saveNew M newId db
                       \<lparr>data_sku = body_sku (body req), data_name = body_name (body req),
                        data_quantity = body_quantity (body req),
                        data_description = body_description (body req),
                        data_images = map path fs, data_featuredImage = fi\<rparr> of
                  Inl e \<Rightarrow> Inl e
                | Inr (db', d) \<Rightarrow>
                    Inr (db', (201, MessageProduct ''Product successfully added'' d)))))"

definition createProduct ::
  "'n mongoose \<Rightarrow> objectId \<Rightarrow> 'n database \<Rightarrow> request \<Rightarrow> 'n database \<times> 'n response" where
  "createProduct M newId db req =
     (case createBody M newId db req of
        Inr r \<Rightarrow> r
      | Inl e \<Rightarrow> (db, (500, MessageError ''Error adding product'' e)))"

subsection \<open>GET /api/products/:id (lines 92 to 102)\<close>

definition getBody :: "'n mongoose \<Rightarrow> 'n database \<Rightarrow> string \<Rightarrow> error + 'n response" where
  "getBody M db s =
     (case findById M db s of
        Inl e \<Rightarrow> Inl e
      | Inr None \<Rightarrow> Inr (404, Message ''Product not found'')
      | Inr (Some d) \<Rightarrow> Inr (200, Document d))"

definition getProduct :: "'n mongoose \<Rightarrow> 'n database \<Rightarrow> string \<Rightarrow> 'n response" where
  "getProduct M db s =
     (case getBody M db s of
        Inr r \<Rightarrow> r
      | Inl e \<Rightarrow> (500, MessageError ''Error fetching product'' e))"

subsection \<open>PUT /api/products/:id (lines 104 to 135)\<close>

text \<open>
  Lines 115 to 120: the paths of the new files when there are any, else the images of
  the document read by \<open>findById\<close>; \<open>product.images\<close> is a TypeError when the read
  returned null.
\<close>

definition carriedImages ::
  "'n mongoose \<Rightarrow> 'n database \<Rightarrow> string \<Rightarrow> error + string list" where
  "carriedImages M db s =
     (case findById M db s of
        Inl e \<Rightarrow> Inl e
      | Inr None \<Rightarrow> Inl TypeError
      | Inr (Some (i, p)) \<Rightarrow> Inr (images p))"

definition updatedImages ::
  "'n mongoose \<Rightarrow> 'n database \<Rightarrow> string \<Rightarrow> request \<Rightarrow> error + string list" where
  "updatedImages M db s req =
     (case files req of
        None \<Rightarrow> carriedImages M db s
      | Some fs \<Rightarrow> if length fs > 0 then Inr (map path fs) else carriedImages M db s)"

definition updateBody ::
  "'n mongoose \<Rightarrow> 'n database \<Rightarrow> string \<Rightarrow> request \<Rightarrow> error + ('n database \<times> 'n response)" where
  "updateBody M db s req =
     (case featuredImageOf req of
        Inl e \<Rightarrow> Inl e
      | Inr fi \<Rightarrow>
          (case updatedImages M db s req of
             Inl e \<Rightarrow> Inl e
           | Inr imgs \<Rightarrow>
               (case findByIdAndUpdate M db s
                       \<lparr>data_sku = body_sku (body req), data_name = body_name (body req),
                        data_quantity = body_quantity (body req),
                        data_description = body_description (body req),
                        data_images = imgs, data_featuredImage = fi\<rparr> of
                  Inl e \<Rightarrow> Inl e
                | Inr (db', None) \<Rightarrow> Inr (db', (404, Message ''Product not found''))
                | Inr (db', Some d) \<Rightarrow> Inr (db', (200, Document d)))))"

definition updateProduct ::
  "'n mongoose \<Rightarrow> 'n database \<Rightarrow> string \<Rightarrow> request \<Rightarrow> 'n database \<times> 'n response" where
  "updateProduct M db s req =
     (case updateBody M db s req of
        Inr r \<Rightarrow> r
      | Inl e \<Rightarrow> (db, (500, MessageError ''Error updating product'' e)))"

subsection \<open>PUT /api/products/:id/favorite (lines 137 to 153)\<close>

text \<open>\<open>!product.isFavorite\<close> reads an unset or null flag as false.\<close>

definition truthyFlag :: "bool option \<Rightarrow> bool" where
  "truthyFlag v = (case v of None \<Rightarrow> False | Some b \<Rightarrow> b)"

definition toggleBody ::
  "'n mongoose \<Rightarrow> 'n database \<Rightarrow> string \<Rightarrow> error + ('n database \<times> 'n response)" where
  "toggleBody M db s =
     (case findById M db s of
        Inl e \<Rightarrow> Inl e
      | Inr None \<Rightarrow> Inr (db, (404, Message ''Product not found''))
      | Inr (Some (i, p)) \<Rightarrow>
          let v = \<not> truthyFlag (isFavorite p) in
          (case saveIsFavorite db i v of
             Inl e \<Rightarrow> Inl e
           | Inr db' \<Rightarrow> Inr (db', (200, Document (i, p\<lparr>isFavorite := Some v\<rparr>)))))"

definition toggleFavorite ::
  "'n mongoose \<Rightarrow> 'n database \<Rightarrow> string \<Rightarrow> 'n database \<times> 'n response" where
  "toggleFavorite M db s =
     (case toggleBody M db s of
        Inr r \<Rightarrow> r
      | Inl e \<Rightarrow> (db, (500, MessageError ''Error toggling favorite status'' e)))"

subsection \<open>DELETE /api/products/:id (lines 155 to 162)\<close>

definition deleteProduct ::
  "'n mongoose \<Rightarrow> 'n database \<Rightarrow> string \<Rightarrow> 'n database \<times> 'n response" where
  "deleteProduct M db s =
     (case findByIdAndDelete M db s of
        Inr db' \<Rightarrow> (db', (204, Empty))
      | Inl e \<Rightarrow> (db, (500, RawError e)))"

subsection \<open>Worked inputs\<close>

text \<open>
  An instance of the library parameters for the worked inputs below: \<open>Number(s)\<close>
  on strings of decimal digits only, either treatment of undefined keys, and the
  reading of an ObjectId from 24 hexadecimal digits of either case, kept in lower case.
\<close>

definition lowerHexDigit :: "char \<Rightarrow> bool" where
  "lowerHexDigit c = (c \<in> set ''0123456789abcdef'')"

definition hexDigit :: "char \<Rightarrow> bool" where
  "hexDigit c = (lowerHexDigit c \<or> c \<in> set ''ABCDEF'')"

definition toLowerHex :: "char \<Rightarrow> char" where
  "toLowerHex c =
     (if c = CHR ''A'' then CHR ''a'' else if c = CHR ''B'' then CHR ''b''
      else if c = CHR ''C'' then CHR ''c'' else if c = CHR ''D'' then CHR ''d''
      else if c = CHR ''E'' then CHR ''e'' else if c = CHR ''F'' then CHR ''f''
      else c)"

definition isObjectId :: "objectId \<Rightarrow> bool" where
  "isObjectId i = (length i = 24 \<and> list_all lowerHexDigit i)"

definition hexObjectId :: "string \<Rightarrow> objectId option" where
  "hexObjectId s =
     (if length s = 24 \<and> list_all hexDigit s then Some (map toLowerHex s) else None)"

definition decimalDigit :: "char \<Rightarrow> bool" where
  "decimalDigit c = (c \<in> set ''0123456789'')"

definition decimalNumber :: "string \<Rightarrow> nat option" where
  "decimalNumber s =
     (if s \<noteq> [] \<and> list_all decimalDigit s
      then Some (foldl (\<lambda>n c. 10 * n + (of_char c - 48)) 0 s)
      else None)"

definition exampleLib :: "undefinedKeys \<Rightarrow> nat mongoose" where
  "exampleLib u =
     \<lparr>toNumber = decimalNumber, undefinedKeys = u, parseObjectId = hexObjectId\<rparr>"

definition idA :: objectId where
  "idA = ''65f1c0ffee0123456789abcd''"

definition idB :: objectId where
  "idB = ''65f1c0ffee0123456789abce''"

definition widget :: "nat product" where
  "widget = \<lparr>sku = Some ''A1'', name = Some ''Widget'', quantity = Some 3,
              description = Some ''x'', images = [''uploads/1.png''],
              featuredImage = Some ''uploads/9.png'', isFavorite = None\<rparr>"

definition shop :: "nat database" where
  "shop = \<lparr>connected = True, docs = [idA \<mapsto> widget]\<rparr>"

definition widgetBody :: reqBody where
  "widgetBody = \<lparr>body_sku = Some ''A1'', body_name = Some ''Widget'', body_quantity = Some ''3'',
                  body_description = Some ''x'', body_featuredImage = None\<rparr>"

definition img1 :: multerFile where
  "img1 = \<lparr>fieldname = ''images'', originalname = ''img1.png'', filename = ''1.png'',
            path = ''uploads/1.png''\<rparr>"

definition img2 :: multerFile where
  "img2 = \<lparr>fieldname = ''images'', originalname = ''img2.png'', filename = ''2.png'',
            path = ''uploads/2.png''\<rparr>"



section \<open>Properties\<close>

subsection \<open>Unfolding the model\<close>

lemmas model_defs =
  castObjectId_def findById_def saveNew_def saveIsFavorite_def setPath_def
  findByIdAndUpdate_def findByIdAndDelete_def castNumber_def toPath_def ofOption_def
  firstFilePath_def truthyString_def featuredImageOf_def createBody_def createProduct_def
  getBody_def getProduct_def carriedImages_def updatedImages_def updateBody_def
  updateProduct_def truthyFlag_def toggleBody_def toggleFavorite_def deleteProduct_def Let_def


lemmas objectId_defs =
  hexObjectId_def isObjectId_def hexDigit_def lowerHexDigit_def toLowerHex_def

lemmas example_defs =
  decimalDigit_def decimalNumber_def exampleLib_def idA_def idB_def widget_def shop_def
  widgetBody_def img1_def img2_def

subsection \<open>Identifiers\<close>

lemma toLowerHex_lower: "lowerHexDigit c \<Longrightarrow> toLowerHex c = c"
  by (auto simp: lowerHexDigit_def toLowerHex_def)

lemma hexObjectId_isObjectId: "isObjectId i \<Longrightarrow> hexObjectId i = Some i"
proof -
  assume a: "isObjectId i"
  then have len: "length i = 24" and low: "list_all lowerHexDigit i"
    by (simp_all add: isObjectId_def)
  from low have hex: "list_all hexDigit i"
    by (simp add: list_all_iff hexDigit_def)
  from low have "map toLowerHex i = i"
    by (intro map_idI) (simp add: list_all_iff toLowerHex_lower)
  with len hex show ?thesis
    by (simp add: hexObjectId_def)
qed

lemma castObjectId_Inl: "castObjectId M s = Inl e \<Longrightarrow> e = CastError ''_id''"
  by (auto simp: castObjectId_def split: option.splits)

lemma castObjectId_isObjectId: "isObjectId i \<Longrightarrow> castObjectId (exampleLib u) i = Inr i"
  by (simp add: castObjectId_def exampleLib_def hexObjectId_isObjectId)

lemma isObjectId_idA: "isObjectId idA"
  by (simp add: objectId_defs idA_def)

lemma isObjectId_idB: "isObjectId idB"
  by (simp add: objectId_defs idB_def)

lemma castObjectId_idA: "castObjectId (exampleLib u) idA = Inr idA"
  by (rule castObjectId_isObjectId [OF isObjectId_idA])

lemma castObjectId_idB: "castObjectId (exampleLib u) idB = Inr idB"
  by (rule castObjectId_isObjectId [OF isObjectId_idB])

lemma castObjectId_short: "castObjectId (exampleLib u) ''42'' = Inl (CastError ''_id'')"
  by (simp add: castObjectId_def exampleLib_def hexObjectId_def)

lemma docs_shop: "docs shop idA = Some widget" "docs shop idB = None" "connected shop"
  by (simp_all add: shop_def idA_def idB_def)

subsection \<open>Upload\<close>




subsection \<open>Get by id\<close>

text \<open>
  C5. With the collection reachable, get-by-id on a well-formed identifier that matches
  no document answers 404 with the message "Product not found". On a malformed
  identifier, one that does not cast to an ObjectId, it answers 500: the cast error is
  caught like any other failure of the lookup and goes out under the message
  "Error fetching product".
\<close>

theorem get_by_id_failures:
  "(connected db \<and> castObjectId M s = Inr i \<and> docs db i = None \<longrightarrow>
      getProduct M db s = (404, Message ''Product not found''))
   \<and> (castObjectId M s = Inl e \<longrightarrow>
      getProduct M db s = (500, MessageError ''Error fetching product'' e))"
  by (simp add: getProduct_def getBody_def findById_def)

theorem get_by_id_failures_witness:
  "connected shop \<and> castObjectId (exampleLib Strip) idB = Inr idB \<and> docs shop idB = None
   \<and> getProduct (exampleLib Strip) shop idB = (404, Message ''Product not found'')
   \<and> castObjectId (exampleLib Strip) ''42'' = Inl (CastError ''_id'')
   \<and> getProduct (exampleLib Strip) shop ''42''
       = (500, MessageError ''Error fetching product'' (CastError ''_id''))"
  using get_by_id_failures [where M = "exampleLib Strip" and db = shop and s = idB and i = idB]
    get_by_id_failures [where M = "exampleLib Strip" and db = shop and s = "''42''"
      and e = "CastError ''_id''"]
    castObjectId_short castObjectId_idB docs_shop
  by simp

subsection \<open>Delete\<close>

text \<open>
  C6. With the collection reachable and a well-formed identifier, delete answers 204
  with an empty body, whether or not a document was stored under the identifier (the
  theorem assumes nothing about it); afterwards no document is stored under the
  identifier and get-by-id on it answers 404.
\<close>

theorem delete_unconditional:
  assumes "connected db" and "castObjectId M s = Inr i"
  shows "snd (deleteProduct M db s) = (204, Empty)
       \<and> docs (fst (deleteProduct M db s)) i = None
       \<and> getProduct M (fst (deleteProduct M db s)) s = (404, Message ''Product not found'')"
  using assms
  by (simp add: deleteProduct_def findByIdAndDelete_def getProduct_def getBody_def findById_def)

theorem delete_unconditional_witness:
  "connected shop \<and> castObjectId (exampleLib Strip) idA = Inr idA
   \<and> docs shop idA = Some widget
   \<and> snd (deleteProduct (exampleLib Strip) shop idA) = (204, Empty)
   \<and> getProduct (exampleLib Strip) (fst (deleteProduct (exampleLib Strip) shop idA)) idA
       = (404, Message ''Product not found'')
   \<and> castObjectId (exampleLib Strip) idB = Inr idB \<and> docs shop idB = None
   \<and> snd (deleteProduct (exampleLib Strip) shop idB) = (204, Empty)"
  using delete_unconditional [where M = "exampleLib Strip" and db = shop and s = idA and i = idA]
    delete_unconditional [where M = "exampleLib Strip" and db = shop and s = idB and i = idB]
    castObjectId_idA castObjectId_idB docs_shop
  by simp

subsection \<open>Favorite toggle\<close>

text \<open>
  C8. With the collection reachable, the favorite toggle of an existing product answers
  200 with a document that is also the one stored afterwards under the same identifier;
  its sku, name, quantity, description, images and featuredImage are those of the
  document before, and isFavorite is the negation of what the flag read as.
\<close>

theorem toggle_frame:
  assumes "connected db" and "castObjectId M s = Inr i" and "docs db i = Some p"
    and "toggleFavorite M db s = (db', r)"
  shows "\<exists>p'. r = (200, Document (i, p')) \<and> docs db' i = Some p'
            \<and> sku p' = sku p \<and> name p' = name p \<and> quantity p' = quantity p
            \<and> description p' = description p \<and> images p' = images p
            \<and> featuredImage p' = featuredImage p
            \<and> isFavorite p' = Some (\<not> truthyFlag (isFavorite p))"
  using assms
  by (auto simp: toggleFavorite_def toggleBody_def findById_def saveIsFavorite_def Let_def)

theorem toggle_frame_witness:
  "connected shop \<and> castObjectId (exampleLib Strip) idA = Inr idA
   \<and> docs shop idA = Some widget
   \<and> (\<exists>p'. snd (toggleFavorite (exampleLib Strip) shop idA) = (200, Document (idA, p'))
          \<and> docs (fst (toggleFavorite (exampleLib Strip) shop idA)) idA = Some p'
          \<and> sku p' = Some ''A1'' \<and> name p' = Some ''Widget'' \<and> quantity p' = Some 3
          \<and> description p' = Some ''x'' \<and> images p' = [''uploads/1.png'']
          \<and> featuredImage p' = Some ''uploads/9.png'' \<and> isFavorite p' = Some True)"
proof -
  have run: "toggleFavorite (exampleLib Strip) shop idA
      = (fst (toggleFavorite (exampleLib Strip) shop idA),
         snd (toggleFavorite (exampleLib Strip) shop idA))"
    by simp
  from toggle_frame [OF docs_shop(3) castObjectId_idA docs_shop(1) run]
  show ?thesis
    by (simp add: castObjectId_idA docs_shop widget_def truthyFlag_def)
qed

text \<open>
  C4. With the collection reachable, two favorite toggles in a row on an existing
  product leave the stored document as it was, with isFavorite holding the boolean the
  flag read as at the start: a flag that was set is restored exactly, and an unset flag,
  which reads as false, ends as false.
\<close>

theorem toggle_twice:
  assumes "connected db" and "castObjectId M s = Inr i" and "docs db i = Some p"
    and "toggleFavorite M db s = (db1, r1)" and "toggleFavorite M db1 s = (db2, r2)"
  shows "docs db2 i = Some (p\<lparr>isFavorite := Some (truthyFlag (isFavorite p))\<rparr>)
       \<and> r2 = (200, Document (i, p\<lparr>isFavorite := Some (truthyFlag (isFavorite p))\<rparr>))
       \<and> (isFavorite p = Some b \<longrightarrow> docs db2 i = Some p)"
  using assms
  by (auto simp: toggleFavorite_def toggleBody_def findById_def saveIsFavorite_def Let_def
        truthyFlag_def)

theorem toggle_twice_witness:
  "docs (fst (toggleFavorite (exampleLib Strip)
               (fst (toggleFavorite (exampleLib Strip) shop idA)) idA)) idA
     = Some (widget\<lparr>isFavorite := Some False\<rparr>)
   \<and> isFavorite (widget\<lparr>isFavorite := Some True\<rparr>) = Some True
   \<and> docs (fst (toggleFavorite (exampleLib Strip)
               (fst (toggleFavorite (exampleLib Strip)
                      (shop\<lparr>docs := [idA \<mapsto> widget\<lparr>isFavorite := Some True\<rparr>]\<rparr>) idA))
               idA)) idA
     = Some (widget\<lparr>isFavorite := Some True\<rparr>)"
proof -
  let ?L = "exampleLib Strip"
  let ?shop' = "shop\<lparr>docs := [idA \<mapsto> widget\<lparr>isFavorite := Some True\<rparr>]\<rparr>"
  have unset: "docs (fst (toggleFavorite ?L (fst (toggleFavorite ?L shop idA)) idA)) idA
      = Some (widget\<lparr>isFavorite := Some False\<rparr>)"
    using toggle_twice [where M = ?L and db = shop and s = idA and i = idA and p = widget
        and ?db1.0 = "fst (toggleFavorite ?L shop idA)"
        and ?r1.0 = "snd (toggleFavorite ?L shop idA)"
        and ?db2.0 = "fst (toggleFavorite ?L (fst (toggleFavorite ?L shop idA)) idA)"
        and ?r2.0 = "snd (toggleFavorite ?L (fst (toggleFavorite ?L shop idA)) idA)"]
      castObjectId_idA docs_shop
    by (simp add: widget_def truthyFlag_def)
  have set: "docs (fst (toggleFavorite ?L (fst (toggleFavorite ?L ?shop' idA)) idA)) idA
      = Some (widget\<lparr>isFavorite := Some True\<rparr>)"
    using toggle_twice [where M = ?L and db = ?shop' and s = idA and i = idA
        and p = "widget\<lparr>isFavorite := Some True\<rparr>" and b = True
        and ?db1.0 = "fst (toggleFavorite ?L ?shop' idA)"
        and ?r1.0 = "snd (toggleFavorite ?L ?shop' idA)"
        and ?db2.0 = "fst (toggleFavorite ?L (fst (toggleFavorite ?L ?shop' idA)) idA)"
        and ?r2.0 = "snd (toggleFavorite ?L (fst (toggleFavorite ?L ?shop' idA)) idA)"]
      castObjectId_idA docs_shop
    by (simp add: truthyFlag_def)
  from unset set show ?thesis by simp
qed

subsection \<open>Create, then get\<close>

text \<open>
  C9. When a create request succeeds (201) and the identifier given to the new document
  is an ObjectId, one that its own string is read back as, get-by-id on the identifier
  of the returned document, asked of the collection as the create left it, answers 200
  with the very document the create response carried: the same identifier and the same
  paths.
\<close>

theorem create_then_get:
  assumes "castObjectId M newId = Inr newId"
    and "createProduct M newId db req = (db', (201, MessageProduct m d))"
  shows "getProduct M db' (fst d) = (200, Document d)"
  using assms
  by (auto simp: createProduct_def createBody_def saveNew_def getProduct_def getBody_def
        findById_def Let_def split: option.splits sum.splits if_splits)

theorem create_then_get_witness:
  "castObjectId (exampleLib Strip) idB = Inr idB
   \<and> snd (createProduct (exampleLib Strip) idB shop \<lparr>body = widgetBody, files = Some [img2, img1]\<rparr>)
       = (201, MessageProduct ''Product successfully added''
            (idB, \<lparr>sku = Some ''A1'', name = Some ''Widget'', quantity = Some 3,
                   description = Some ''x'', images = [''uploads/2.png'', ''uploads/1.png''],
                   featuredImage = Some ''uploads/2.png'', isFavorite = None\<rparr>))
   \<and> getProduct (exampleLib Strip)
        (fst (createProduct (exampleLib Strip) idB shop
                \<lparr>body = widgetBody, files = Some [img2, img1]\<rparr>)) idB
       = (200, Document
            (idB, \<lparr>sku = Some ''A1'', name = Some ''Widget'', quantity = Some 3,
                   description = Some ''x'', images = [''uploads/2.png'', ''uploads/1.png''],
                   featuredImage = Some ''uploads/2.png'', isFavorite = None\<rparr>))"
proof -
  let ?req = "\<lparr>body = widgetBody, files = Some [img2, img1]\<rparr>"
  let ?p = "\<lparr>sku = Some ''A1'', name = Some ''Widget'', quantity = Some (3::nat),
             description = Some ''x'', images = [''uploads/2.png'', ''uploads/1.png''],
             featuredImage = Some ''uploads/2.png'', isFavorite = None\<rparr>"
  have run: "snd (createProduct (exampleLib Strip) idB shop ?req)
      = (201, MessageProduct ''Product successfully added'' (idB, ?p))"
    by (simp add: model_defs example_defs)
  then have "createProduct (exampleLib Strip) idB shop ?req
      = (fst (createProduct (exampleLib Strip) idB shop ?req),
         (201, MessageProduct ''Product successfully added'' (idB, ?p)))"
    by (simp add: prod_eq_iff)
  from create_then_get [OF castObjectId_idB this] run castObjectId_idB
  show ?thesis by simp
qed

subsection \<open>Update\<close>

text \<open>
  The state \<open>shop\<close> of the worked inputs is what a create request with an explicit
  featuredImage and one file leaves in an empty collection.
\<close>

lemma shop_reachable:
  "fst (createProduct (exampleLib Strip) idA \<lparr>connected = True, docs = Map.empty\<rparr>
          \<lparr>body = widgetBody\<lparr>body_featuredImage := Some ''uploads/9.png''\<rparr>,
           files = Some [img1]\<rparr>) = shop"
  by (simp add: model_defs example_defs)

text \<open>
  C3, the claim as stated fails on an update request with a new file that is answered
  500: the quantity \<open>abc\<close> does not cast to a Number, \<open>findByIdAndUpdate\<close>
  raises, and the stored images of the existing product stay \<open>[uploads/1.png]\<close>
  instead of becoming the path of the new file.
\<close>

theorem update_rejected_counterexample:
  "docs shop idA = Some widget \<and> images widget = [''uploads/1.png'']
   \<and> files \<lparr>body = widgetBody\<lparr>body_quantity := Some ''abc''\<rparr>, files = Some [img2]\<rparr>
       = Some [img2]
   \<and> snd (updateProduct (exampleLib Strip) shop idA
            \<lparr>body = widgetBody\<lparr>body_quantity := Some ''abc''\<rparr>, files = Some [img2]\<rparr>)
       = (500, MessageError ''Error updating product'' (CastError ''quantity''))
   \<and> map_option images
        (docs (fst (updateProduct (exampleLib Strip) shop idA
                      \<lparr>body = widgetBody\<lparr>body_quantity := Some ''abc''\<rparr>,
                       files = Some [img2]\<rparr>)) idA)
       = Some [''uploads/1.png'']
   \<and> map path [img2] = [''uploads/2.png'']"
  by (simp add: model_defs objectId_defs example_defs)

text \<open>
  C3, as amended. For a product stored under a well-formed identifier, an update
  request without new files (\<open>req.files\<close> empty or undefined) leaves the stored
  images as they were, whatever the response; an update request with one or more new
  files that succeeds (200) leaves as stored images exactly the paths of the new files,
  in order.
\<close>

theorem update_images:
  assumes "castObjectId M s = Inr i" and "docs db i = Some p"
    and "updateProduct M db s req = (db', r)"
  shows "(files req = None \<or> files req = Some [] \<longrightarrow>
            map_option images (docs db' i) = Some (images p))
       \<and> (\<forall>fs. files req = Some fs \<and> fs \<noteq> [] \<and> fst r = 200 \<longrightarrow>
            map_option images (docs db' i) = Some (map path fs))"
proof (intro conjI allI impI)
  assume "files req = None \<or> files req = Some []"
  with assms show "map_option images (docs db' i) = Some (images p)"
    by (auto simp: updateProduct_def updateBody_def updatedImages_def carriedImages_def
          findById_def findByIdAndUpdate_def Let_def
          split: sum.splits if_splits option.splits)
next
  fix fs
  assume "files req = Some fs \<and> fs \<noteq> [] \<and> fst r = 200"
  with assms show "map_option images (docs db' i) = Some (map path fs)"
    by (auto simp: updateProduct_def updateBody_def updatedImages_def
          findByIdAndUpdate_def Let_def
          split: sum.splits if_splits option.splits)
qed

theorem update_images_witness:
  "castObjectId (exampleLib Strip) idA = Inr idA \<and> docs shop idA = Some widget
   \<and> images widget = [''uploads/1.png'']
   \<and> fst (snd (updateProduct (exampleLib Strip) shop idA \<lparr>body = widgetBody, files = Some []\<rparr>)) = 200
   \<and> map_option images
        (docs (fst (updateProduct (exampleLib Strip) shop idA
                      \<lparr>body = widgetBody, files = Some []\<rparr>)) idA)
       = Some [''uploads/1.png'']
   \<and> fst (snd (updateProduct (exampleLib Strip) shop idA
                  \<lparr>body = widgetBody, files = Some [img2, img1]\<rparr>)) = 200
   \<and> map_option images
        (docs (fst (updateProduct (exampleLib Strip) shop idA
                      \<lparr>body = widgetBody, files = Some [img2, img1]\<rparr>)) idA)
       = Some [''uploads/2.png'', ''uploads/1.png'']"
proof -
  let ?keep = "\<lparr>body = widgetBody, files = Some []\<rparr>"
  let ?new = "\<lparr>body = widgetBody, files = Some [img2, img1]\<rparr>"
  have ok1: "fst (snd (updateProduct (exampleLib Strip) shop idA ?keep)) = 200"
    by (simp add: model_defs objectId_defs example_defs)
  have ok2: "fst (snd (updateProduct (exampleLib Strip) shop idA ?new)) = 200"
    by (simp add: model_defs objectId_defs example_defs)
  have paths: "map path [img2, img1] = [''uploads/2.png'', ''uploads/1.png'']"
    and imgs: "images widget = [''uploads/1.png'']"
    by (simp_all add: img1_def img2_def widget_def)
  from update_images [where M = "exampleLib Strip" and db = shop and s = idA and i = idA
      and p = widget and req = ?keep
      and db' = "fst (updateProduct (exampleLib Strip) shop idA ?keep)"
      and r = "snd (updateProduct (exampleLib Strip) shop idA ?keep)"]
    update_images [where M = "exampleLib Strip" and db = shop and s = idA and i = idA
      and p = widget and req = ?new
      and db' = "fst (updateProduct (exampleLib Strip) shop idA ?new)"
      and r = "snd (updateProduct (exampleLib Strip) shop idA ?new)"]
    ok1 ok2 paths imgs castObjectId_idA docs_shop
  show ?thesis by simp
qed

text \<open>
  C2. With the collection reachable, an update request that carries no new files and
  addresses a well-formed identifier with no matching document is answered 500, not
  404: the handler reads \<open>images\<close> of the null that \<open>findById\<close> returned, and the
  TypeError goes out under the message "Error updating product". The collection is
  left as it was.
\<close>

theorem update_missing_without_files:
  assumes "connected db" and "castObjectId M s = Inr i" and "docs db i = None"
    and "files req = Some []"
  shows "updateProduct M db s req
       = (db, (500, MessageError ''Error updating product'' TypeError))"
  using assms
  by (auto simp: updateProduct_def updateBody_def updatedImages_def carriedImages_def
        findById_def featuredImageOf_def firstFilePath_def split: sum.splits)

theorem update_missing_without_files_witness:
  "connected shop \<and> castObjectId (exampleLib Strip) idB = Inr idB \<and> docs shop idB = None
   \<and> files \<lparr>body = widgetBody, files = Some []\<rparr> = Some []
   \<and> updateProduct (exampleLib Strip) shop idB \<lparr>body = widgetBody, files = Some []\<rparr>
       = (shop, (500, MessageError ''Error updating product'' TypeError))"
  using update_missing_without_files [where M = "exampleLib Strip" and db = shop and s = idB
      and i = idB and req = "\<lparr>body = widgetBody, files = Some []\<rparr>"]
    castObjectId_idB docs_shop
  by simp

text \<open>
  The sibling path: the same request with at least one new file, and a quantity that
  casts, is answered 404.
\<close>

lemma update_missing_with_files:
  assumes "connected db" and "castObjectId M s = Inr i" and "docs db i = None"
    and "files req = Some (f # fs)" and "castNumber M (body_quantity (body req)) = Inr q"
  shows "updateProduct M db s req = (db, (404, Message ''Product not found''))"
  using assms
  by (auto simp: updateProduct_def updateBody_def updatedImages_def findByIdAndUpdate_def
        featuredImageOf_def firstFilePath_def split: sum.splits)

lemma update_missing_with_files_example:
  "updateProduct (exampleLib Strip) shop idB \<lparr>body = widgetBody, files = Some [img2]\<rparr>
     = (shop, (404, Message ''Product not found''))"
  by (simp add: model_defs objectId_defs example_defs)

subsection \<open>The featured image\<close>

text \<open>
  C1, the claim as stated fails on an update without new files. The product of \<open>shop\<close>
  has images \<open>[uploads/1.png]\<close>; the update request gives no featuredImage and no
  files, succeeds and carries the images over. The stored featuredImage afterwards is
  not \<open>uploads/1.png\<close>: it is null where the library sets undefined keys to null,
  and the former \<open>uploads/9.png\<close> where the library strips them.
\<close>

theorem featuredImage_carried_counterexample:
  "body_featuredImage (body \<lparr>body = widgetBody, files = Some []\<rparr>) = None
   \<and> fst (snd (updateProduct (exampleLib SetNull) shop idA \<lparr>body = widgetBody, files = Some []\<rparr>)) = 200
   \<and> map_option images
        (docs (fst (updateProduct (exampleLib SetNull) shop idA
                      \<lparr>body = widgetBody, files = Some []\<rparr>)) idA)
       = Some [''uploads/1.png'']
   \<and> map_option featuredImage
        (docs (fst (updateProduct (exampleLib SetNull) shop idA
                      \<lparr>body = widgetBody, files = Some []\<rparr>)) idA)
       = Some None
   \<and> fst (snd (updateProduct (exampleLib Strip) shop idA \<lparr>body = widgetBody, files = Some []\<rparr>)) = 200
   \<and> map_option images
        (docs (fst (updateProduct (exampleLib Strip) shop idA
                      \<lparr>body = widgetBody, files = Some []\<rparr>)) idA)
       = Some [''uploads/1.png'']
   \<and> map_option featuredImage
        (docs (fst (updateProduct (exampleLib Strip) shop idA
                      \<lparr>body = widgetBody, files = Some []\<rparr>)) idA)
       = Some (Some ''uploads/9.png'')"
  by (simp add: model_defs objectId_defs example_defs)

text \<open>
  C1, as amended. For every create or update request that gives no featuredImage (the
  field is absent or empty) and carries at least one uploaded file: when the request
  succeeds, the document returned is the one stored, its images are the paths of the
  uploaded files and its featuredImage is the first entry of its images.
\<close>

theorem featuredImage_first_upload:
  assumes "\<not> truthyString (body_featuredImage (body req))"
    and "files req = Some (f # fs)"
  shows "(createProduct M newId db req = (db1, (201, MessageProduct m (i, p))) \<longrightarrow>
            docs db1 i = Some p \<and> images p = path f # map path fs
            \<and> featuredImage p = Some (hd (images p)))
       \<and> (updateProduct M db s req = (db2, (200, Document (j, q))) \<longrightarrow>
            docs db2 j = Some q \<and> images q = path f # map path fs
            \<and> featuredImage q = Some (hd (images q)))"
proof (intro conjI impI)
  assume c: "createProduct M newId db req = (db1, (201, MessageProduct m (i, p)))"
  from c assms show "docs db1 i = Some p"
    by (auto simp: createProduct_def createBody_def saveNew_def featuredImageOf_def
          firstFilePath_def Let_def split: sum.splits if_splits)
  from c assms show "images p = path f # map path fs"
    by (auto simp: createProduct_def createBody_def saveNew_def featuredImageOf_def
          firstFilePath_def Let_def split: sum.splits if_splits)
  from c assms show "featuredImage p = Some (hd (images p))"
    by (auto simp: createProduct_def createBody_def saveNew_def featuredImageOf_def
          firstFilePath_def Let_def split: sum.splits if_splits)
next
  assume u: "updateProduct M db s req = (db2, (200, Document (j, q)))"
  from u assms show "docs db2 j = Some q"
    by (auto simp: updateProduct_def updateBody_def updatedImages_def findByIdAndUpdate_def
          featuredImageOf_def firstFilePath_def Let_def
          split: sum.splits if_splits option.splits)
  from u assms show "images q = path f # map path fs"
    by (auto simp: updateProduct_def updateBody_def updatedImages_def findByIdAndUpdate_def
          featuredImageOf_def firstFilePath_def Let_def
          split: sum.splits if_splits option.splits)
  from u assms show "featuredImage q = Some (hd (images q))"
    by (auto simp: updateProduct_def updateBody_def updatedImages_def findByIdAndUpdate_def
          featuredImageOf_def firstFilePath_def setPath_def ofOption_def Let_def
          split: sum.splits if_splits option.splits)
qed

theorem featuredImage_first_upload_witness:
  "\<not> truthyString (body_featuredImage (body \<lparr>body = widgetBody, files = Some [img2, img1]\<rparr>))
   \<and> files \<lparr>body = widgetBody, files = Some [img2, img1]\<rparr> = Some (img2 # [img1])
   \<and> snd (createProduct (exampleLib SetNull) idB shop \<lparr>body = widgetBody, files = Some [img2, img1]\<rparr>)
       = (201, MessageProduct ''Product successfully added''
            (idB, \<lparr>sku = Some ''A1'', name = Some ''Widget'', quantity = Some 3,
                   description = Some ''x'', images = [''uploads/2.png'', ''uploads/1.png''],
                   featuredImage = Some ''uploads/2.png'', isFavorite = None\<rparr>))
   \<and> docs (fst (createProduct (exampleLib SetNull) idB shop
                  \<lparr>body = widgetBody, files = Some [img2, img1]\<rparr>)) idB
       = Some \<lparr>sku = Some ''A1'', name = Some ''Widget'', quantity = Some 3,
               description = Some ''x'', images = [''uploads/2.png'', ''uploads/1.png''],
               featuredImage = Some ''uploads/2.png'', isFavorite = None\<rparr>
   \<and> snd (updateProduct (exampleLib SetNull) shop idA \<lparr>body = widgetBody, files = Some [img2, img1]\<rparr>)
       = (200, Document
            (idA, \<lparr>sku = Some ''A1'', name = Some ''Widget'', quantity = Some 3,
                   description = Some ''x'', images = [''uploads/2.png'', ''uploads/1.png''],
                   featuredImage = Some ''uploads/2.png'', isFavorite = None\<rparr>))
   \<and> docs (fst (updateProduct (exampleLib SetNull) shop idA
                  \<lparr>body = widgetBody, files = Some [img2, img1]\<rparr>)) idA
       = Some \<lparr>sku = Some ''A1'', name = Some ''Widget'', quantity = Some 3,
               description = Some ''x'', images = [''uploads/2.png'', ''uploads/1.png''],
               featuredImage = Some ''uploads/2.png'', isFavorite = None\<rparr>"
proof -
  let ?req = "\<lparr>body = widgetBody, files = Some [img2, img1]\<rparr>"
  let ?p = "\<lparr>sku = Some ''A1'', name = Some ''Widget'', quantity = Some (3::nat),
             description = Some ''x'', images = [''uploads/2.png'', ''uploads/1.png''],
             featuredImage = Some ''uploads/2.png'', isFavorite = None\<rparr>"
  have absent: "\<not> truthyString (body_featuredImage (body ?req))"
    by (simp add: truthyString_def widgetBody_def)
  have sent: "files ?req = Some (img2 # [img1])"
    by simp
  have c: "snd (createProduct (exampleLib SetNull) idB shop ?req)
      = (201, MessageProduct ''Product successfully added'' (idB, ?p))"
    by (simp add: model_defs example_defs)
  have u: "snd (updateProduct (exampleLib SetNull) shop idA ?req) = (200, Document (idA, ?p))"
    by (simp add: model_defs objectId_defs example_defs)
  from c have c': "createProduct (exampleLib SetNull) idB shop ?req
      = (fst (createProduct (exampleLib SetNull) idB shop ?req),
         (201, MessageProduct ''Product successfully added'' (idB, ?p)))"
    by (simp add: prod_eq_iff)
  from u have u': "updateProduct (exampleLib SetNull) shop idA ?req
      = (fst (updateProduct (exampleLib SetNull) shop idA ?req), (200, Document (idA, ?p)))"
    by (simp add: prod_eq_iff)
  from featuredImage_first_upload [OF absent sent, where M = "exampleLib SetNull"
      and newId = idB and db = shop and s = idA
      and ?db1.0 = "fst (createProduct (exampleLib SetNull) idB shop ?req)"
      and m = "''Product successfully added''" and i = idB and p = ?p
      and ?db2.0 = "fst (updateProduct (exampleLib SetNull) shop idA ?req)"
      and j = idA and q = ?p]
    c' u' c u absent
  show ?thesis by simp
qed

text \<open>
  C7, the claim as stated fails when the featuredImage field is sent empty: the empty
  string is falsy, so the created product takes the path of the first uploaded file,
  and no featuredImage at all when no file was uploaded.
\<close>

theorem empty_featuredImage_counterexample:
  "body_featuredImage (widgetBody\<lparr>body_featuredImage := Some ''''\<rparr>) = Some ''''
   \<and> snd (createProduct (exampleLib Strip) idB shop
            \<lparr>body = widgetBody\<lparr>body_featuredImage := Some ''''\<rparr>, files = Some [img2, img1]\<rparr>)
       = (201, MessageProduct ''Product successfully added''
            (idB, \<lparr>sku = Some ''A1'', name = Some ''Widget'', quantity = Some 3,
                   description = Some ''x'', images = [''uploads/2.png'', ''uploads/1.png''],
                   featuredImage = Some ''uploads/2.png'', isFavorite = None\<rparr>))
   \<and> snd (createProduct (exampleLib Strip) idB shop
            \<lparr>body = widgetBody\<lparr>body_featuredImage := Some ''''\<rparr>, files = Some []\<rparr>)
       = (201, MessageProduct ''Product successfully added''
            (idB, \<lparr>sku = Some ''A1'', name = Some ''Widget'', quantity = Some 3,
                   description = Some ''x'', images = [],
                   featuredImage = None, isFavorite = None\<rparr>))"
  by (simp add: model_defs example_defs)

text \<open>
  C7, as amended. For every create request that supplies a non-empty featuredImage
  value and succeeds, the created product, as returned and as stored, has that value as
  its featuredImage, whatever files were uploaded with the request.
\<close>

theorem explicit_featuredImage_kept:
  assumes "body_featuredImage (body req) = Some v" and "v \<noteq> []"
    and "createProduct M newId db req = (db', (201, MessageProduct m (i, p)))"
  shows "featuredImage p = Some v \<and> docs db' i = Some p"
  using assms
  by (auto simp: createProduct_def createBody_def saveNew_def featuredImageOf_def
        truthyString_def Let_def split: sum.splits if_splits option.splits)

theorem explicit_featuredImage_kept_witness:
  "body_featuredImage (body \<lparr>body = widgetBody\<lparr>body_featuredImage := Some ''uploads/9.png''\<rparr>,
                              files = Some [img2, img1]\<rparr>) = Some ''uploads/9.png''
   \<and> ''uploads/9.png'' \<noteq> []
   \<and> snd (createProduct (exampleLib Strip) idB shop
            \<lparr>body = widgetBody\<lparr>body_featuredImage := Some ''uploads/9.png''\<rparr>,
             files = Some [img2, img1]\<rparr>)
       = (201, MessageProduct ''Product successfully added''
            (idB, \<lparr>sku = Some ''A1'', name = Some ''Widget'', quantity = Some 3,
                   description = Some ''x'', images = [''uploads/2.png'', ''uploads/1.png''],
                   featuredImage = Some ''uploads/9.png'', isFavorite = None\<rparr>))
   \<and> map_option featuredImage
        (docs (fst (createProduct (exampleLib Strip) idB shop
                      \<lparr>body = widgetBody\<lparr>body_featuredImage := Some ''uploads/9.png''\<rparr>,
                       files = Some [img2, img1]\<rparr>)) idB)
       = Some (Some ''uploads/9.png'')"
proof -
  let ?req = "\<lparr>body = widgetBody\<lparr>body_featuredImage := Some ''uploads/9.png''\<rparr>,
              files = Some [img2, img1]\<rparr>"
  let ?p = "\<lparr>sku = Some ''A1'', name = Some ''Widget'', quantity = Some (3::nat),
             description = Some ''x'', images = [''uploads/2.png'', ''uploads/1.png''],
             featuredImage = Some ''uploads/9.png'', isFavorite = None\<rparr>"
  have given: "body_featuredImage (body ?req) = Some ''uploads/9.png''"
    by simp
  have nonempty: "''uploads/9.png'' \<noteq> []"
    by simp
  have c: "snd (createProduct (exampleLib Strip) idB shop ?req)
      = (201, MessageProduct ''Product successfully added'' (idB, ?p))"
    by (simp add: model_defs example_defs)
  then have c': "createProduct (exampleLib Strip) idB shop ?req
      = (fst (createProduct (exampleLib Strip) idB shop ?req),
         (201, MessageProduct ''Product successfully added'' (idB, ?p)))"
    by (simp add: prod_eq_iff)
  from explicit_featuredImage_kept [OF given nonempty c'] c
  show ?thesis by simp
qed

end
